theory Spec2Isabelle
  imports Complex_Main "HOL-Library.Sublist"
begin

section \<open>The command-line rewrite of the CPU retry\<close>

text \<open>
  The handler of \<^verbatim>\<open>main\<close> for the unsupported sparse operation walks over
  \<^verbatim>\<open>sys.argv[1:]\<close> with an output list \<^verbatim>\<open>new_args\<close> and a flag
  \<^verbatim>\<open>skip_next\<close>. The loop is the recursion below: the first argument is the list built so
  far, the second the flag, the third the arguments still to be read. Python's
  \<^verbatim>\<open>str.startswith\<close> is \<^const>\<open>prefix\<close> on character lists, and the order of the
  \<^verbatim>\<open>if\<close>/\<^verbatim>\<open>elif\<close> chain is kept.
\<close>

fun rewrite_loop :: "string list \<Rightarrow> bool \<Rightarrow> string list \<Rightarrow> string list" where
  "rewrite_loop new_args skip_next [] = new_args"
| "rewrite_loop new_args skip_next (arg # args) =
     (if skip_next then rewrite_loop new_args False args
      else if arg = ''--device'' then rewrite_loop (new_args @ [''--device'', ''cpu'']) True args
      else if prefix ''--device='' arg then rewrite_loop (new_args @ [''--device=cpu'']) False args
      else if arg = ''--fp16'' then rewrite_loop (new_args @ [''--fp16'', ''False'']) True args
      else if prefix ''--fp16='' arg then rewrite_loop (new_args @ [''--fp16=False'']) False args
      else rewrite_loop (new_args @ [arg]) False args)"

definition rewrite_args :: "string list \<Rightarrow> string list" where
  "rewrite_args args = rewrite_loop [] False args"

section \<open>Failures, log records and events\<close>

text \<open>
  A failure is an exception derived from \<^verbatim>\<open>Exception\<close>. The handlers of the script
  tell \<^verbatim>\<open>NotImplementedError\<close> (and its subclasses) from every other class, so the
  model has one constructor for each; both carry the message \<^verbatim>\<open>str(e)\<close>, the second
  also the class name \<^verbatim>\<open>type(e).__name__\<close>.
\<close>

datatype failure = NotImplementedError string | OtherException string string

fun str :: "failure \<Rightarrow> string" where
  "str (NotImplementedError error_message) = error_message"
| "str (OtherException name error_message) = error_message"

fun type_name :: "failure \<Rightarrow> string" where
  "type_name (NotImplementedError error_message) = ''NotImplementedError''"
| "type_name (OtherException name error_message) = name"

definition sparse_marker :: string where
  "sparse_marker = ''aten::_sparse_coo_tensor_with_dims_and_tensors''"

text \<open>Python's \<^verbatim>\<open>marker in error_message\<close>: the marker occurs as a contiguous substring.\<close>

definition has_sparse_marker :: "string \<Rightarrow> bool" where
  "has_sparse_marker error_message = sublist sparse_marker error_message"

text \<open>
  Everything the script does to the outside is an event of a trace: a log record, a call of
  the wrapped command line with the \<^verbatim>\<open>sys.argv\<close> it finds, the clearing of the
  accelerator's cache. A log message is its text; where the source formats a list of
  arguments or a number of seconds into it, the value is kept beside the text.
\<close>

datatype level = INFO | WARNING | ERROR

datatype message =
    Text string
  | WithArgv string "string list"
  | WithSeconds string real

datatype event =
    Log level message
  | CliCall "string list"
  | MpsEmptyCache

section \<open>The transfer guard\<close>

text \<open>
  A tensor is sparse or dense, lives on a device and has entries; \<^verbatim>\<open>to_dense\<close> changes
  the layout only. The unpatched \<^verbatim>\<open>torch.Tensor.to\<close> belongs to the framework and is a
  parameter: it takes the tensor and the transfer arguments and returns a tensor or raises.
  Every tensor has the attribute \<^verbatim>\<open>is_sparse\<close>, so the test of the handler is the
  value of the attribute.
\<close>

record tensor =
  is_sparse :: bool
  placed_on :: string
  entries :: "int list"

definition to_dense :: "tensor \<Rightarrow> tensor" where
  "to_dense self = self\<lparr>is_sparse := False\<rparr>"

definition patched_to ::
  "(tensor \<Rightarrow> 'p \<Rightarrow> failure + tensor) \<Rightarrow> tensor \<Rightarrow> 'p \<Rightarrow> (failure + tensor) \<times> event list" where
  "patched_to original_to self args =
     (case original_to self args of
        Inr moved \<Rightarrow> (Inr moved, [])
      | Inl (NotImplementedError e) \<Rightarrow>
          if is_sparse self
          then (original_to (to_dense self) args,
                [Log WARNING (Text (''Converting sparse tensor to dense for MPS compatibility: '' @ e))])
          else (Inl (NotImplementedError e),
                [Log ERROR (Text (''NotImplementedError in patched_to: '' @ e))])
      | Inl (OtherException name e) \<Rightarrow> (Inl (OtherException name e), []))"

section \<open>The module apply guard\<close>

text \<open>
  A module owns an ordered dictionary of parameters, one of buffers (a value may be
  \<^verbatim>\<open>None\<close>) and its child modules. The unpatched \<^verbatim>\<open>Module._apply\<close> is a parameter
  that returns the transformed module or raises; the handler reads the module as the failed
  call left it, which the model takes to be the module the call was given.

  The two loops of the handler over \<^verbatim>\<open>_parameters\<close> and \<^verbatim>\<open>_buffers\<close> differ in the
  word of their log record only; \<open>apply_entries\<close> is that loop. A failure raised inside the
  inner handler (by the transform of the dense tensor), or one the inner handler does not
  catch, ends the loop and leaves the guard. The loop over \<^verbatim>\<open>self.children()\<close> calls
  \<^verbatim>\<open>_apply\<close> of each child, which is the guard again, since the patch replaces the
  attribute of the class.
\<close>

datatype module =
  Module (parameters: "(string \<times> tensor option) list")
         (buffers: "(string \<times> tensor option) list")
         (children: "module list")

definition store :: "'a \<Rightarrow> event list \<Rightarrow> (failure + 'a list) \<times> event list \<Rightarrow> (failure + 'a list) \<times> event list" where
  "store entry logged later =
     (case later of
        (Inl e, evs) \<Rightarrow> (Inl e, logged @ evs)
      | (Inr rest, evs) \<Rightarrow> (Inr (entry # rest), logged @ evs))"

fun apply_entries ::
  "string \<Rightarrow> (tensor \<Rightarrow> failure + tensor) \<Rightarrow> (string \<times> tensor option) list
     \<Rightarrow> (failure + (string \<times> tensor option) list) \<times> event list" where
  "apply_entries what fn [] = (Inr [], [])"
| "apply_entries what fn ((key, None) # items) = store (key, None) [] (apply_entries what fn items)"
| "apply_entries what fn ((key, Some param) # items) =
     (case fn param of
        Inr param_applied \<Rightarrow> store (key, Some param_applied) [] (apply_entries what fn items)
      | Inl (NotImplementedError e) \<Rightarrow>
          if is_sparse param
          then (let logged = [Log INFO (Text (''Converting sparse '' @ what @ '' to dense: '' @ key))]
                in case fn (to_dense param) of
                     Inr param_applied \<Rightarrow>
                       store (key, Some param_applied) logged (apply_entries what fn items)
                   | Inl raised \<Rightarrow> (Inl raised, logged))
          else store (key, Some param) [] (apply_entries what fn items)
      | Inl (OtherException name e) \<Rightarrow> (Inl (OtherException name e), []))"

fun patched_apply ::
  "(module \<Rightarrow> failure + module) \<Rightarrow> (tensor \<Rightarrow> failure + tensor) \<Rightarrow> module
     \<Rightarrow> (failure + module) \<times> event list"
and apply_children ::
  "(module \<Rightarrow> failure + module) \<Rightarrow> (tensor \<Rightarrow> failure + tensor) \<Rightarrow> module list
     \<Rightarrow> (failure + module list) \<times> event list" where
  "patched_apply original_apply fn (Module params bufs subs) =
     (case original_apply (Module params bufs subs) of
        Inr applied \<Rightarrow> (Inr applied, [])
      | Inl (NotImplementedError error_message) \<Rightarrow>
          if has_sparse_marker error_message
          then (let warned = [Log WARNING (Text (''Handling sparse tensor in Module._apply: '' @ error_message))]
                in case apply_entries ''parameter'' fn params of
                     (Inl e, evs1) \<Rightarrow> (Inl e, warned @ evs1)
                   | (Inr params', evs1) \<Rightarrow>
                       (case apply_entries ''buffer'' fn bufs of
                          (Inl e, evs2) \<Rightarrow> (Inl e, warned @ evs1 @ evs2)
                        | (Inr bufs', evs2) \<Rightarrow>
                            (case apply_children original_apply fn subs of
                               (Inl e, evs3) \<Rightarrow> (Inl e, warned @ evs1 @ evs2 @ evs3)
                             | (Inr subs', evs3) \<Rightarrow>
                                 (Inr (Module params' bufs' subs'), warned @ evs1 @ evs2 @ evs3))))
          else (Inl (NotImplementedError error_message), [])
      | Inl (OtherException name error_message) \<Rightarrow> (Inl (OtherException name error_message), []))"
| "apply_children original_apply fn [] = (Inr [], [])"
| "apply_children original_apply fn (sub # subs) =
     (case patched_apply original_apply fn sub of
        (Inl e, evs) \<Rightarrow> (Inl e, evs)
      | (Inr sub', evs) \<Rightarrow> store sub' evs (apply_children original_apply fn subs))"

section \<open>The model load guard\<close>

text \<open>
  The wrapped loader is a parameter. The two readings of \<^verbatim>\<open>time.time()\<close> are
  parameters as well (real numbers stand for Python's floats); the second one is taken only
  when the loader has returned.
\<close>

record whisper_model =
  model_name :: string
  training :: bool

definition optimized_load_model ::
  "(string \<Rightarrow> string option \<Rightarrow> string option \<Rightarrow> bool \<Rightarrow> failure + whisper_model)
     \<Rightarrow> real \<Rightarrow> real \<Rightarrow> string \<Rightarrow> string option \<Rightarrow> string option \<Rightarrow> bool
     \<Rightarrow> (failure + whisper_model) \<times> event list" where
  "optimized_load_model original_load_model start_time end_time name device download_root in_memory =
     (let loading = Log INFO (Text (''Loading model '' @ name @ '' to device '' @
                      (case device of None \<Rightarrow> ''None'' | Some d \<Rightarrow> d)))
      in case original_load_model name device download_root in_memory of
           Inl e \<Rightarrow> (Inl e, [loading])
         | Inr model \<Rightarrow>
             (let load_time = end_time - start_time;
                  loaded = Log INFO (WithSeconds ''Model loaded in'' load_time)
              in if device = Some ''mps''
                 then (Inr (model\<lparr>training := False\<rparr>),
                       [loading, MpsEmptyCache,
                        Log INFO (Text ''Pre-compiling common operations for MPS''), loaded])
                 else (Inr model, [loading, loaded])))"

section \<open>The entry point\<close>

text \<open>
  The wrapped \<^verbatim>\<open>cli()\<close> reads \<^verbatim>\<open>sys.argv\<close> and returns a value, raises a failure, or
  leaves through \<^verbatim>\<open>sys.exit\<close> (its argument parser does so on a usage error and for
  \<^verbatim>\<open>--help\<close>). \<^verbatim>\<open>SystemExit\<close> is not derived from \<^verbatim>\<open>Exception\<close>, so no handler of
  the script catches it: it is an outcome of its own. Interrupts from outside the program
  (\<^verbatim>\<open>KeyboardInterrupt\<close>) are not modelled. The command line is a parameter
  \<open>cli\<close>; its first argument counts the earlier calls, so that a second run may differ from
  the first on the same arguments. It reads \<^verbatim>\<open>sys.argv\<close> and does not change it.
\<close>

datatype py_value = PyNone | PyInt int | PyObject string

datatype 'a outcome = Returned 'a | Raised failure | Exited py_value

fun using_mps :: "string list \<Rightarrow> bool" where
  "using_mps [] = False"
| "using_mps (arg # later) =
     (if arg = ''--device'' \<and> later \<noteq> [] \<and> hd later = ''mps'' then True
      else if prefix ''--device=mps'' arg then True
      else using_mps later)"

definition benchmark_transcription ::
  "real \<Rightarrow> real \<Rightarrow> 'a outcome \<times> event list \<Rightarrow> ('a \<times> real) outcome \<times> event list" where
  "benchmark_transcription start_time end_time func =
     (case func of
        (Returned result, evs) \<Rightarrow>
          (let duration = end_time - start_time
           in (Returned (result, duration),
               evs @ [Log INFO (WithSeconds ''Transcription completed in'' duration)]))
      | (Raised e, evs) \<Rightarrow> (Raised e, evs)
      | (Exited status, evs) \<Rightarrow> (Exited status, evs))"

record run =
  outcome :: "py_value outcome"
  final_argv :: "string list"
  trace :: "event list"

text \<open>The body of the \<^verbatim>\<open>try\<close> statement of \<^verbatim>\<open>main\<close>: the first run.\<close>

definition first_run ::
  "(nat \<Rightarrow> string list \<Rightarrow> py_value outcome) \<Rightarrow> real \<Rightarrow> real \<Rightarrow> string list \<Rightarrow> run" where
  "first_run cli start_time end_time sys_argv =
     (if ''--benchmark'' \<in> set sys_argv
      then (let sys_argv' = remove1 ''--benchmark'' sys_argv;
                (timed, evs) = benchmark_transcription start_time end_time
                                 (cli 0 sys_argv', [CliCall sys_argv'])
            in \<lparr>outcome = (case timed of
                              Returned (result, duration) \<Rightarrow> Returned result
                            | Raised e \<Rightarrow> Raised e
                            | Exited status \<Rightarrow> Exited status),
                final_argv = sys_argv',
                trace = Log INFO (Text ''Running in benchmark mode'') # evs\<rparr>)
      else \<lparr>outcome = cli 0 sys_argv,
            final_argv = sys_argv,
            trace = [Log INFO (Text ''Attempting to run whisper''), CliCall sys_argv]\<rparr>)"

text \<open>
  \<^verbatim>\<open>main\<close>: the scan for the accelerator (for the log only), the first run, and the two
  handlers. The retry is called inside the handler of \<^verbatim>\<open>NotImplementedError\<close>, where no
  handler of the same \<^verbatim>\<open>try\<close> statement applies any more. \<^verbatim>\<open>sys.argv[0]\<close> on an
  empty list raises \<^verbatim>\<open>IndexError\<close>.
\<close>

definition main ::
  "(nat \<Rightarrow> string list \<Rightarrow> py_value outcome) \<Rightarrow> real \<Rightarrow> real \<Rightarrow> string list \<Rightarrow> run" where
  "main cli start_time end_time sys_argv =
     (let starting =
            [Log INFO (WithArgv ''Starting whisper_mps with args:'' sys_argv),
             Log INFO (Text (if using_mps sys_argv then ''Running with MPS (GPU) acceleration''
                             else ''Running with CPU''))];
          tried = first_run cli start_time end_time sys_argv
      in case outcome tried of
           Returned result \<Rightarrow> tried\<lparr>trace := starting @ trace tried\<rparr>
         | Exited status \<Rightarrow> tried\<lparr>trace := starting @ trace tried\<rparr>
         | Raised (NotImplementedError error_message) \<Rightarrow>
             (let logged = starting @ trace tried @
                           [Log ERROR (Text (''NotImplementedError: '' @ error_message))]
              in if has_sparse_marker error_message
                 then (case final_argv tried of
                         [] \<Rightarrow> \<lparr>outcome = Raised (OtherException ''IndexError'' ''list index out of range''),
                                final_argv = [],
                                trace = logged @
                                  [Log WARNING (Text ''Falling back to CPU due to sparse tensor error'')]\<rparr>
                       | program # args \<Rightarrow>
                           (let sys_argv' = [program] @ rewrite_args args
                            in \<lparr>outcome = cli 1 sys_argv',
                                final_argv = sys_argv',
                                trace = logged @
                                  [Log WARNING (Text ''Falling back to CPU due to sparse tensor error''),
                                   Log INFO (WithArgv ''Retrying with CPU:'' sys_argv'),
                                   CliCall sys_argv']\<rparr>))
                 else tried\<lparr>trace := logged\<rparr>)
         | Raised (OtherException name error_message) \<Rightarrow>
             tried\<lparr>trace := starting @ trace tried @
                      [Log ERROR (Text (''Unexpected error: '' @ name @ '': '' @ error_message))]\<rparr>)"

text \<open>
  The block under \<^verbatim>\<open>if __name__ == '__main__'\<close>: \<^verbatim>\<open>sys.exit(main())\<close> inside a handler
  of \<^verbatim>\<open>Exception\<close>. \<^verbatim>\<open>sys.exit\<close> turns its argument into the exit status of the
  process, which is one byte: \<^verbatim>\<open>None\<close> is 0; an integer that fits the interpreter's C
  integer (64 bits) is reduced modulo 256, so 256 gives 0, 257 gives 1 and -1 gives 255; an
  integer that does not fit is taken as -1 and gives 255; any other object is printed and
  gives 1. This is the interpreter on a POSIX system.
\<close>

fun exit_status :: "py_value \<Rightarrow> int" where
  "exit_status PyNone = 0"
| "exit_status (PyInt n) = (if - (2 ^ 63) \<le> n \<and> n < 2 ^ 63 then n mod 256 else 255)"
| "exit_status (PyObject printed) = 1"

definition script ::
  "(nat \<Rightarrow> string list \<Rightarrow> py_value outcome) \<Rightarrow> real \<Rightarrow> real \<Rightarrow> string list \<Rightarrow> int \<times> event list" where
  "script cli start_time end_time sys_argv =
     (let ran = main cli start_time end_time sys_argv
      in case outcome ran of
           Returned result \<Rightarrow> (exit_status result, trace ran)
         | Exited status \<Rightarrow> (exit_status status, trace ran)
         | Raised e \<Rightarrow>
             (1, trace ran @ [Log ERROR (Text (''Fatal error: '' @ type_name e @ '': '' @ str e))]))"

section \<open>The rewrite, argument by argument\<close>

text \<open>
  The specification words the rewrite as a rule for each original argument: it is the device
  flag or the precision flag (as a token of its own or joined to its value by \<open>=\<close>), the
  value token consumed after a flag that stands alone, or any other argument. \<open>roles\<close>
  assigns these roles from left to right, and \<open>emitted\<close> is what an argument of each role
  contributes to the output.
\<close>

definition rewritten_flag :: "string \<Rightarrow> bool" where
  "rewritten_flag arg =
     (arg = ''--device'' \<or> prefix ''--device='' arg \<or> arg = ''--fp16'' \<or> prefix ''--fp16='' arg)"

datatype role =
  DeviceFlag | DeviceJoined | PrecisionFlag | PrecisionJoined | ConsumedValue | Other

fun roles :: "bool \<Rightarrow> string list \<Rightarrow> role list" where
  "roles consume [] = []"
| "roles consume (arg # args) =
     (if consume then ConsumedValue # roles False args
      else if arg = ''--device'' then DeviceFlag # roles True args
      else if prefix ''--device='' arg then DeviceJoined # roles False args
      else if arg = ''--fp16'' then PrecisionFlag # roles True args
      else if prefix ''--fp16='' arg then PrecisionJoined # roles False args
      else Other # roles False args)"

fun emitted :: "role \<times> string \<Rightarrow> string list" where
  "emitted (DeviceFlag, arg) = [''--device'', ''cpu'']"
| "emitted (DeviceJoined, arg) = [''--device=cpu'']"
| "emitted (PrecisionFlag, arg) = [''--fp16'', ''False'']"
| "emitted (PrecisionJoined, arg) = [''--fp16=False'']"
| "emitted (ConsumedValue, arg) = []"
| "emitted (Other, arg) = [arg]"

definition passed_through :: "string list \<Rightarrow> string list" where
  "passed_through args = map snd (filter (\<lambda>(r, arg). r = Other) (zip (roles False args) args))"

definition replacement_tokens :: "string list" where
  "replacement_tokens =
     [''--device'', ''cpu'', ''--device=cpu'', ''--fp16'', ''False'', ''--fp16=False'']"

section \<open>Observations on modules and traces\<close>

text \<open>
  An entry of a module's dictionary counts as transformed when it keeps its key and its
  tensor is the transform of the old one, or the transform of the densified old one where
  the old one is sparse and the transform raised the unsupported-operation failure on it;
  \<^verbatim>\<open>None\<close> stays \<^verbatim>\<open>None\<close>.
\<close>

definition transformed_by ::
  "(tensor \<Rightarrow> failure + tensor) \<Rightarrow> string \<times> tensor option \<Rightarrow> string \<times> tensor option \<Rightarrow> bool" where
  "transformed_by fn before after =
     (fst after = fst before \<and>
      (case snd before of
         None \<Rightarrow> snd after = None
       | Some t \<Rightarrow>
           (case snd after of
              None \<Rightarrow> False
            | Some applied \<Rightarrow>
                fn t = Inr applied \<or>
                (is_sparse t \<and> (\<exists>e. fn t = Inl (NotImplementedError e))
                   \<and> fn (to_dense t) = Inr applied))))"

text \<open>The argument lists the wrapped command line was called with, in order.\<close>

fun cli_calls :: "event list \<Rightarrow> string list list" where
  "cli_calls [] = []"
| "cli_calls (CliCall sys_argv # evs) = sys_argv # cli_calls evs"
| "cli_calls (Log lvl msg # evs) = cli_calls evs"
| "cli_calls (MpsEmptyCache # evs) = cli_calls evs"

section \<open>Example environments\<close>

text \<open>
  Tensors: a sparse one, a dense one, and a dense one on the \<^verbatim>\<open>meta\<close> device, which has
  no data.
\<close>

definition sparse_example :: tensor where
  "sparse_example = \<lparr>is_sparse = True, placed_on = ''cpu'', entries = [0, 3, 0]\<rparr>"

definition dense_example :: tensor where
  "dense_example = \<lparr>is_sparse = False, placed_on = ''cpu'', entries = [1, 2]\<rparr>"

definition meta_example :: tensor where
  "meta_example = \<lparr>is_sparse = False, placed_on = ''meta'', entries = []\<rparr>"

text \<open>
  Transfers: \<open>example_to\<close> knows no device \<^verbatim>\<open>tpu\<close> and cannot build a sparse tensor on
  the accelerator; \<open>layout_to\<close> refuses every sparse tensor with a message that does not
  name the sparse operation.
\<close>

definition example_to :: "tensor \<Rightarrow> string \<Rightarrow> failure + tensor" where
  "example_to self target =
     (if target = ''tpu'' then Inl (OtherException ''RuntimeError'' ''unknown device'')
      else if is_sparse self \<and> target = ''mps''
      then Inl (NotImplementedError ''Could not run aten::_sparse_coo_tensor_with_dims_and_tensors'')
      else Inr (self\<lparr>placed_on := target\<rparr>))"

definition layout_to :: "tensor \<Rightarrow> string \<Rightarrow> failure + tensor" where
  "layout_to self target =
     (if is_sparse self then Inl (NotImplementedError ''Sparse layout is not supported on this device'')
      else Inr (self\<lparr>placed_on := target\<rparr>))"

text \<open>
  Transforms for \<^verbatim>\<open>_apply\<close>: both move a dense tensor to the accelerator and raise the
  sparse failure on a sparse one; \<open>copy_to_mps\<close> also raises on a tensor of the
  \<^verbatim>\<open>meta\<close> device, as the framework does when there is no data to copy.
\<close>

definition move_to_mps :: "tensor \<Rightarrow> failure + tensor" where
  "move_to_mps t =
     (if is_sparse t
      then Inl (NotImplementedError ''Could not run aten::_sparse_coo_tensor_with_dims_and_tensors'')
      else Inr (t\<lparr>placed_on := ''mps''\<rparr>))"

definition copy_to_mps :: "tensor \<Rightarrow> failure + tensor" where
  "copy_to_mps t =
     (if is_sparse t
      then Inl (NotImplementedError ''Could not run aten::_sparse_coo_tensor_with_dims_and_tensors'')
      else if placed_on t = ''meta''
      then Inl (NotImplementedError ''Cannot copy out of meta tensor; no data!'')
      else Inr (t\<lparr>placed_on := ''mps''\<rparr>))"

text \<open>Bulk applications that always raise: the sparse failure, and another unsupported operation.\<close>

definition sparse_failing_apply :: "module \<Rightarrow> failure + module" where
  "sparse_failing_apply self =
     Inl (NotImplementedError ''Could not run aten::_sparse_coo_tensor_with_dims_and_tensors'')"

definition unsupported_apply :: "module \<Rightarrow> failure + module" where
  "unsupported_apply self = Inl (NotImplementedError ''aten::linalg_qr is not implemented for MPS'')"

text \<open>
  Modules: one with two parameters (the first sparse), two buffers and a child; one whose
  second parameter is on the \<^verbatim>\<open>meta\<close> device.
\<close>

definition example_module :: module where
  "example_module =
     Module [(''weight'', Some sparse_example), (''bias'', Some dense_example)]
            [(''mask'', Some dense_example), (''cache'', None)]
            [Module [(''scale'', Some dense_example)] [] []]"

definition meta_module :: module where
  "meta_module =
     Module [(''weight'', Some sparse_example), (''bias'', Some meta_example)]
            [(''mask'', Some dense_example)] []"

text \<open>A loader that finds no model, and five command lines.\<close>

definition missing_loader ::
  "string \<Rightarrow> string option \<Rightarrow> string option \<Rightarrow> bool \<Rightarrow> failure + whisper_model" where
  "missing_loader name device download_root in_memory =
     Inl (OtherException ''RuntimeError'' ''Model not found'')"

definition quiet_cli :: "nat \<Rightarrow> string list \<Rightarrow> py_value outcome" where
  "quiet_cli earlier sys_argv = Returned PyNone"

definition usage_error_cli :: "nat \<Rightarrow> string list \<Rightarrow> py_value outcome" where
  "usage_error_cli earlier sys_argv = Exited (PyInt 2)"

definition sparse_failing_cli :: "nat \<Rightarrow> string list \<Rightarrow> py_value outcome" where
  "sparse_failing_cli earlier sys_argv =
     Raised (NotImplementedError ''Could not run aten::_sparse_coo_tensor_with_dims_and_tensors'')"

definition broken_cli :: "nat \<Rightarrow> string list \<Rightarrow> py_value outcome" where
  "broken_cli earlier sys_argv = Raised (OtherException ''FileNotFoundError'' ''audio.wav'')"

definition wrapping_cli :: "nat \<Rightarrow> string list \<Rightarrow> py_value outcome" where
  "wrapping_cli earlier sys_argv = Returned (PyInt 257)"

section \<open>Properties of the rewrite\<close>

lemma rewrite_loop_acc:
  "rewrite_loop new_args skip_next args = new_args @ rewrite_loop [] skip_next args"
proof (induction args arbitrary: new_args skip_next)
  case Nil
  show ?case by simp
next
  case (Cons arg args)
  note IH = Cons.IH
  show ?case
    by (simp add: IH [of new_args] IH [of "new_args @ _"] IH [of "[_]"] IH [of "[_, _]"])
qed

lemma rewrite_loop_Cons:
  "rewrite_loop [] skip_next (arg # args) =
     (if skip_next then rewrite_loop [] False args
      else if arg = ''--device'' then ''--device'' # ''cpu'' # rewrite_loop [] True args
      else if prefix ''--device='' arg then ''--device=cpu'' # rewrite_loop [] False args
      else if arg = ''--fp16'' then ''--fp16'' # ''False'' # rewrite_loop [] True args
      else if prefix ''--fp16='' arg then ''--fp16=False'' # rewrite_loop [] False args
      else arg # rewrite_loop [] False args)"
  by (simp add: rewrite_loop_acc [of "[_]"] rewrite_loop_acc [of "[_, _]"])

lemma rewrite_loop_idem:
  "rewrite_loop [] False (rewrite_loop [] skip_next args) = rewrite_loop [] skip_next args"
proof (induction args arbitrary: skip_next)
  case Nil
  show ?case by simp
next
  case (Cons arg args)
  show ?case
    using Cons.IH [of True] Cons.IH [of False]
    by (simp del: rewrite_loop.simps(2) add: rewrite_loop_Cons)
qed

lemma length_roles: "length (roles consume args) = length args"
  by (induction args arbitrary: consume) simp_all

lemma rewrite_loop_roles:
  "rewrite_loop [] skip_next args = concat (map emitted (zip (roles skip_next args) args))"
proof (induction args arbitrary: skip_next)
  case Nil
  show ?case by simp
next
  case (Cons arg args)
  show ?case
    by (simp del: rewrite_loop.simps(2) add: rewrite_loop_Cons Cons.IH)
qed

lemma subseq_passed:
  "subseq (map snd (filter (\<lambda>(r, arg). r = Other) (zip (roles skip_next args) args)))
          (rewrite_loop [] skip_next args)"
proof (induction args arbitrary: skip_next)
  case Nil
  show ?case by simp
next
  case (Cons arg args)
  show ?case
    using Cons.IH [of True] Cons.IH [of False]
    by (auto simp del: rewrite_loop.simps(2) simp add: rewrite_loop_Cons intro: list_emb_Cons)
qed

lemma only_replacements_added:
  "filter (\<lambda>arg. arg \<notin> set replacement_tokens) (rewrite_loop [] skip_next args)
     = filter (\<lambda>arg. arg \<notin> set replacement_tokens)
         (map snd (filter (\<lambda>(r, arg). r = Other) (zip (roles skip_next args) args)))"
proof (induction args arbitrary: skip_next)
  case Nil
  show ?case by simp
next
  case (Cons arg args)
  show ?case
    using Cons.IH [of True] Cons.IH [of False]
    by (simp del: rewrite_loop.simps(2) add: rewrite_loop_Cons replacement_tokens_def)
qed

text \<open>
  Claim C4. On \<^verbatim>\<open>["--device", "mps", "--fp16", "True", "input.wav"]\<close> the rewrite yields
  \<^verbatim>\<open>["--device", "cpu", "--fp16", "False", "input.wav"]\<close>, and on
  \<^verbatim>\<open>["--device=mps", "--fp16=True"]\<close> it yields \<^verbatim>\<open>["--device=cpu", "--fp16=False"]\<close>.
  A flag that stands alone is replaced together with the value token after it, a flag joined
  to its value is replaced in place, and an argument that is neither flag stays where it is.
\<close>

theorem rewrite_examples:
  "rewrite_args [''--device'', ''mps'', ''--fp16'', ''True'', ''input.wav'']
     = [''--device'', ''cpu'', ''--fp16'', ''False'', ''input.wav'']
   \<and> rewrite_args [''--device=mps'', ''--fp16=True''] = [''--device=cpu'', ''--fp16=False'']
   \<and> rewrite_args (''--device'' # value # rest) = ''--device'' # ''cpu'' # rewrite_args rest
   \<and> rewrite_args (''--fp16'' # value # rest) = ''--fp16'' # ''False'' # rewrite_args rest
   \<and> rewrite_args ((''--device='' @ value) # rest) = ''--device=cpu'' # rewrite_args rest
   \<and> rewrite_args ((''--fp16='' @ value) # rest) = ''--fp16=False'' # rewrite_args rest
   \<and> (\<not> rewritten_flag arg \<longrightarrow> rewrite_args (arg # rest) = arg # rewrite_args rest)"
  by (simp del: rewrite_loop.simps(2) add: rewrite_args_def rewrite_loop_Cons rewritten_flag_def)

theorem rewrite_examples_witness:
  "\<not> rewritten_flag ''input.wav''
   \<and> rewrite_args [''input.wav'', ''--device=mps''] = ''input.wav'' # rewrite_args [''--device=mps'']"
proof -
  have h: "\<not> rewritten_flag ''input.wav''"
    by (simp add: rewritten_flag_def)
  from rewrite_examples [where arg = "''input.wav''" and rest = "[''--device=mps'']"] h
  show ?thesis by blast
qed

text \<open>
  Claim C5. The frame of the rewrite: every original argument contributes to the output by
  its role alone. The two flags contribute their fixed replacements, a consumed value token
  contributes nothing, every other argument contributes itself. So the other arguments
  appear in the output unchanged and in their original order, and whatever else the output
  holds is one of the six replacement tokens.
\<close>

theorem rewrite_frame:
  "length (roles False args) = length args
   \<and> rewrite_args args = concat (map emitted (zip (roles False args) args))
   \<and> subseq (passed_through args) (rewrite_args args)
   \<and> filter (\<lambda>arg. arg \<notin> set replacement_tokens) (rewrite_args args)
       = filter (\<lambda>arg. arg \<notin> set replacement_tokens) (passed_through args)"
  using subseq_passed [of False args] only_replacements_added [of False args]
  by (simp add: length_roles rewrite_args_def rewrite_loop_roles passed_through_def)

text \<open>
  Claim C6. The rewrite is idempotent: it leaves
  \<^verbatim>\<open>["--device", "cpu", "--fp16", "False"]\<close> as it is, and on every argument list a
  second pass changes nothing that the first pass produced.
\<close>

theorem rewrite_idempotent:
  "rewrite_args [''--device'', ''cpu'', ''--fp16'', ''False'']
     = [''--device'', ''cpu'', ''--fp16'', ''False'']
   \<and> rewrite_args (rewrite_args args) = rewrite_args args"
  by (simp add: rewrite_args_def rewrite_loop_idem)

section \<open>Properties of the transfer guard\<close>

text \<open>
  Claim C1. When the direct transfer of a sparse tensor raises the unsupported-operation
  failure, the guard's outcome is the outcome of the transfer of the densified tensor with
  the same arguments: that one call is the only retry, and whatever it returns or raises is
  what the guard returns or raises. A failure of another class, or any failure for a tensor
  that is not sparse, leaves the guard unchanged, and for a tensor that is not sparse the
  guard's outcome is the outcome of the unpatched call.
\<close>

theorem patched_to_guard:
  "(is_sparse T \<and> original_to T P = Inl (NotImplementedError e)
      \<longrightarrow> fst (patched_to original_to T P) = original_to (to_dense T) P)
   \<and> (original_to T P = Inl f \<and> (\<not> is_sparse T \<or> (\<forall>e. f \<noteq> NotImplementedError e))
      \<longrightarrow> fst (patched_to original_to T P) = Inl f)
   \<and> (\<not> is_sparse T \<longrightarrow> fst (patched_to original_to T P) = original_to T P)"
  by (cases "original_to T P"; cases f)
     (auto simp: patched_to_def split: sum.splits failure.splits)

theorem patched_to_guard_witness:
  "is_sparse sparse_example
   \<and> example_to sparse_example ''mps''
       = Inl (NotImplementedError ''Could not run aten::_sparse_coo_tensor_with_dims_and_tensors'')
   \<and> fst (patched_to example_to sparse_example ''mps'')
       = Inr \<lparr>is_sparse = False, placed_on = ''mps'', entries = [0, 3, 0]\<rparr>
   \<and> example_to sparse_example ''tpu'' = Inl (OtherException ''RuntimeError'' ''unknown device'')
   \<and> fst (patched_to example_to sparse_example ''tpu'')
       = Inl (OtherException ''RuntimeError'' ''unknown device'')
   \<and> \<not> is_sparse dense_example
   \<and> fst (patched_to example_to dense_example ''mps'') = example_to dense_example ''mps''"
proof -
  have s: "is_sparse sparse_example" and d: "\<not> is_sparse dense_example"
    by (simp_all add: sparse_example_def dense_example_def)
  have f1: "example_to sparse_example ''mps''
       = Inl (NotImplementedError ''Could not run aten::_sparse_coo_tensor_with_dims_and_tensors'')"
    by (simp add: example_to_def sparse_example_def)
  have f2: "example_to sparse_example ''tpu'' = Inl (OtherException ''RuntimeError'' ''unknown device'')"
    by (simp add: example_to_def)
  have r: "example_to (to_dense sparse_example) ''mps''
       = Inr \<lparr>is_sparse = False, placed_on = ''mps'', entries = [0, 3, 0]\<rparr>"
    by (simp add: example_to_def to_dense_def sparse_example_def)
  from patched_to_guard [of sparse_example example_to "''mps''" _ _] s f1 r
  have c1: "fst (patched_to example_to sparse_example ''mps'')
       = Inr \<lparr>is_sparse = False, placed_on = ''mps'', entries = [0, 3, 0]\<rparr>"
    by simp
  from patched_to_guard [of sparse_example example_to "''tpu''" _ "OtherException ''RuntimeError'' ''unknown device''"] f2
  have c2: "fst (patched_to example_to sparse_example ''tpu'')
       = Inl (OtherException ''RuntimeError'' ''unknown device'')"
    by simp
  from patched_to_guard [of dense_example example_to "''mps''"] d
  have c3: "fst (patched_to example_to dense_example ''mps'') = example_to dense_example ''mps''"
    by simp
  from s d f1 f2 c1 c2 c3 show ?thesis by simp
qed

section \<open>Properties of the module apply guard\<close>

lemma marker_example:
  "has_sparse_marker ''Could not run aten::_sparse_coo_tensor_with_dims_and_tensors''"
  by (simp add: has_sparse_marker_def sparse_marker_def sublist_Cons_right)

lemma store_Inr:
  "fst later = Inr rest \<Longrightarrow> fst (store entry logged later) = Inr (entry # rest)"
  by (cases later) (simp add: store_def)

lemma apply_entries_transformed:
  assumes dense_ok: "\<forall>t. \<not> is_sparse t \<longrightarrow> (\<exists>applied. fn t = Inr applied)"
    and sparse_unsupported: "\<forall>t f. is_sparse t \<and> fn t = Inl f \<longrightarrow> (\<exists>e. f = NotImplementedError e)"
  shows "\<exists>items'. fst (apply_entries what fn items) = Inr items'
            \<and> list_all2 (transformed_by fn) items items'"
proof (induction items)
  case Nil
  show ?case by simp
next
  case (Cons item items)
  from Cons.IH obtain items' where
    rest: "fst (apply_entries what fn items) = Inr items'"
    and all: "list_all2 (transformed_by fn) items items'"
    by blast
  obtain key param where item: "item = (key, param)" by (cases item)
  have "\<exists>param'. fst (apply_entries what fn ((key, param) # items)) = Inr ((key, param') # items')
          \<and> transformed_by fn (key, param) (key, param')"
  proof (cases param)
    case None
    with rest show ?thesis
      by (simp add: store_Inr transformed_by_def)
  next
    case (Some t)
    show ?thesis
    proof (cases "fn t")
      case (Inr applied)
      with Some rest show ?thesis
        by (simp add: store_Inr transformed_by_def)
    next
      case (Inl f)
      show ?thesis
      proof (cases "is_sparse t")
        case True
        with Inl sparse_unsupported obtain e where f: "f = NotImplementedError e"
          by blast
        have "\<not> is_sparse (to_dense t)"
          by (simp add: to_dense_def)
        with dense_ok obtain applied where d: "fn (to_dense t) = Inr applied"
          by blast
        from Some Inl f True d rest show ?thesis
          by (simp add: store_Inr transformed_by_def)
      next
        case False
        with dense_ok Inl show ?thesis by auto
      qed
    qed
  qed
  with item all show ?case by auto
qed

lemma guard_returns:
  assumes dense_ok: "\<forall>t. \<not> is_sparse t \<longrightarrow> (\<exists>applied. fn t = Inr applied)"
    and sparse_unsupported: "\<forall>t f. is_sparse t \<and> fn t = Inl f \<longrightarrow> (\<exists>e. f = NotImplementedError e)"
    and bulk_sparse: "\<forall>m f. original_apply m = Inl f \<longrightarrow> (\<exists>e. f = NotImplementedError e \<and> has_sparse_marker e)"
  shows "\<exists>m'. fst (patched_apply original_apply fn m) = Inr m'"
    and "\<exists>ms'. fst (apply_children original_apply fn ms) = Inr ms'
            \<and> list_all2 (\<lambda>c c'. fst (patched_apply original_apply fn c) = Inr c') ms ms'"
  using assms
proof (induction original_apply fn m and original_apply fn ms rule: patched_apply_apply_children.induct)
  case (1 original_apply fn params bufs subs)
  show ?case
  proof (cases "original_apply (Module params bufs subs)")
    case (Inr applied)
    then show ?thesis by simp
  next
    case (Inl f)
    with "1.prems" obtain e where f: "f = NotImplementedError e" and m: "has_sparse_marker e"
      by blast
    from apply_entries_transformed [of fn "''parameter''" params] "1.prems"
    obtain params' where p: "fst (apply_entries ''parameter'' fn params) = Inr params'" by blast
    from apply_entries_transformed [of fn "''buffer''" bufs] "1.prems"
    obtain bufs' where b: "fst (apply_entries ''buffer'' fn bufs) = Inr bufs'" by blast
    obtain evs1 where p': "apply_entries ''parameter'' fn params = (Inr params', evs1)"
      using p by (cases "apply_entries ''parameter'' fn params") simp
    obtain evs2 where b': "apply_entries ''buffer'' fn bufs = (Inr bufs', evs2)"
      using b by (cases "apply_entries ''buffer'' fn bufs") simp
    from "1.IH" [OF Inl f m refl p' [symmetric] refl b' [symmetric] refl "1.prems"]
    obtain subs' where c: "fst (apply_children original_apply fn subs) = Inr subs'" by blast
    obtain evs3 where c': "apply_children original_apply fn subs = (Inr subs', evs3)"
      using c by (cases "apply_children original_apply fn subs") simp
    show ?thesis using Inl f m p' b' c' by simp
  qed
next
  case (2 original_apply fn)
  show ?case by simp
next
  case (3 original_apply fn sub subs)
  from "3.IH"(1) [OF "3.prems"] obtain sub' where s: "fst (patched_apply original_apply fn sub) = Inr sub'"
    by blast
  obtain evs where s': "patched_apply original_apply fn sub = (Inr sub', evs)"
    using s by (cases "patched_apply original_apply fn sub") simp
  from "3.IH"(2) [OF s' [symmetric] refl "3.prems"] obtain subs' where
    r: "fst (apply_children original_apply fn subs) = Inr subs'"
    and a: "list_all2 (\<lambda>c c'. fst (patched_apply original_apply fn c) = Inr c') subs subs'"
    by blast
  show ?case using s s' r a by (simp add: store_Inr)
qed

text \<open>
  Claim C3. Let the transform return on every dense tensor and, on a sparse one, return or
  raise the unsupported-operation failure, and let the bulk application fail with the
  sparse failure only. When the bulk application of a module with N parameters and M
  buffers raises that failure, the guard returns a module with N parameters and M buffers,
  each of them transformed (through its densified form where it is sparse and the direct
  transform raised), and with one guarded application for every child, all of which return.
  One sparse parameter among dense ones is the case the claim names; the number of sparse
  entries does not matter.
\<close>

theorem apply_guard_transforms_all:
  assumes dense_ok: "\<forall>t. \<not> is_sparse t \<longrightarrow> (\<exists>applied. fn t = Inr applied)"
    and sparse_unsupported: "\<forall>t f. is_sparse t \<and> fn t = Inl f \<longrightarrow> (\<exists>e. f = NotImplementedError e)"
    and bulk_sparse: "\<forall>m f. original_apply m = Inl f \<longrightarrow> (\<exists>e. f = NotImplementedError e \<and> has_sparse_marker e)"
    and bulk_fails: "original_apply m = Inl (NotImplementedError e)"
  shows "\<exists>m'. fst (patched_apply original_apply fn m) = Inr m'
            \<and> length (parameters m') = length (parameters m)
            \<and> length (buffers m') = length (buffers m)
            \<and> list_all2 (transformed_by fn) (parameters m) (parameters m')
            \<and> list_all2 (transformed_by fn) (buffers m) (buffers m')
            \<and> list_all2 (\<lambda>c c'. fst (patched_apply original_apply fn c) = Inr c') (children m) (children m')"
proof -
  obtain params bufs subs where m: "m = Module params bufs subs" by (cases m)
  from bulk_fails bulk_sparse have marker: "has_sparse_marker e" by blast
  from apply_entries_transformed [OF dense_ok sparse_unsupported, of "''parameter''" params]
  obtain params' where p: "fst (apply_entries ''parameter'' fn params) = Inr params'"
    and pt: "list_all2 (transformed_by fn) params params'" by blast
  from apply_entries_transformed [OF dense_ok sparse_unsupported, of "''buffer''" bufs]
  obtain bufs' where b: "fst (apply_entries ''buffer'' fn bufs) = Inr bufs'"
    and bt: "list_all2 (transformed_by fn) bufs bufs'" by blast
  from guard_returns(2) [OF dense_ok sparse_unsupported bulk_sparse, of subs]
  obtain subs' where c: "fst (apply_children original_apply fn subs) = Inr subs'"
    and ct: "list_all2 (\<lambda>c c'. fst (patched_apply original_apply fn c) = Inr c') subs subs'"
    by blast
  obtain evs1 where p': "apply_entries ''parameter'' fn params = (Inr params', evs1)"
    using p by (cases "apply_entries ''parameter'' fn params") simp
  obtain evs2 where b': "apply_entries ''buffer'' fn bufs = (Inr bufs', evs2)"
    using b by (cases "apply_entries ''buffer'' fn bufs") simp
  obtain evs3 where c': "apply_children original_apply fn subs = (Inr subs', evs3)"
    using c by (cases "apply_children original_apply fn subs") simp
  have "fst (patched_apply original_apply fn m) = Inr (Module params' bufs' subs')"
    using m bulk_fails marker p' b' c' by simp
  moreover have "length params' = length params" "length bufs' = length bufs"
    using pt bt by (simp_all add: list_all2_lengthD)
  ultimately show ?thesis
    using m pt bt ct by simp
qed

theorem apply_guard_transforms_all_witness:
  "sparse_failing_apply example_module
     = Inl (NotImplementedError ''Could not run aten::_sparse_coo_tensor_with_dims_and_tensors'')
   \<and> (\<exists>m'. fst (patched_apply sparse_failing_apply move_to_mps example_module) = Inr m'
            \<and> length (parameters m') = length (parameters example_module)
            \<and> length (buffers m') = length (buffers example_module)
            \<and> list_all2 (transformed_by move_to_mps) (parameters example_module) (parameters m')
            \<and> list_all2 (transformed_by move_to_mps) (buffers example_module) (buffers m')
            \<and> list_all2 (\<lambda>c c'. fst (patched_apply sparse_failing_apply move_to_mps c) = Inr c')
                 (children example_module) (children m'))"
proof -
  have h1: "\<forall>t. \<not> is_sparse t \<longrightarrow> (\<exists>applied. move_to_mps t = Inr applied)"
    by (simp add: move_to_mps_def)
  have h2: "\<forall>t f. is_sparse t \<and> move_to_mps t = Inl f \<longrightarrow> (\<exists>e. f = NotImplementedError e)"
    by (auto simp: move_to_mps_def)
  have h3: "\<forall>m f. sparse_failing_apply m = Inl f \<longrightarrow> (\<exists>e. f = NotImplementedError e \<and> has_sparse_marker e)"
    using marker_example by (auto simp: sparse_failing_apply_def)
  have h4: "sparse_failing_apply example_module
     = Inl (NotImplementedError ''Could not run aten::_sparse_coo_tensor_with_dims_and_tensors'')"
    by (simp add: sparse_failing_apply_def)
  from apply_guard_transforms_all [OF h1 h2 h3 h4] h4 show ?thesis
    by blast
qed

text \<open>The example module after the guard, with the records the guard logs on the way.\<close>

lemma example_module_result:
  "patched_apply sparse_failing_apply move_to_mps example_module
     = (Inr (Module [(''weight'', Some \<lparr>is_sparse = False, placed_on = ''mps'', entries = [0, 3, 0]\<rparr>),
                     (''bias'', Some \<lparr>is_sparse = False, placed_on = ''mps'', entries = [1, 2]\<rparr>)]
                    [(''mask'', Some \<lparr>is_sparse = False, placed_on = ''mps'', entries = [1, 2]\<rparr>),
                     (''cache'', None)]
                    [Module [(''scale'', Some \<lparr>is_sparse = False, placed_on = ''mps'', entries = [1, 2]\<rparr>)] [] []]),
        [Log WARNING (Text ''Handling sparse tensor in Module._apply: Could not run aten::_sparse_coo_tensor_with_dims_and_tensors''),
         Log INFO (Text ''Converting sparse parameter to dense: weight''),
         Log WARNING (Text ''Handling sparse tensor in Module._apply: Could not run aten::_sparse_coo_tensor_with_dims_and_tensors'')])"
  by (simp add: example_module_def sparse_failing_apply_def move_to_mps_def marker_example
      sparse_example_def dense_example_def to_dense_def store_def)

text \<open>
  Claim C7. The claim asks that every caught failure is logged before it is handled or
  raised again. Here the inner handler of the parameter loop catches the failure that the
  transform raises on the dense parameter \<^verbatim>\<open>bias\<close>; the parameter is not sparse, and the
  handler has no branch for that: the guard returns, \<^verbatim>\<open>bias\<close> is left as it was, and the
  trace holds no record of the failure.
\<close>

theorem swallowed_failure_unlogged:
  "copy_to_mps meta_example = Inl (NotImplementedError ''Cannot copy out of meta tensor; no data!'')
   \<and> patched_apply sparse_failing_apply copy_to_mps meta_module
     = (Inr (Module [(''weight'', Some \<lparr>is_sparse = False, placed_on = ''mps'', entries = [0, 3, 0]\<rparr>),
                     (''bias'', Some meta_example)]
                    [(''mask'', Some \<lparr>is_sparse = False, placed_on = ''mps'', entries = [1, 2]\<rparr>)]
                    []),
        [Log WARNING (Text ''Handling sparse tensor in Module._apply: Could not run aten::_sparse_coo_tensor_with_dims_and_tensors''),
         Log INFO (Text ''Converting sparse parameter to dense: weight'')])"
  by (simp add: meta_module_def sparse_failing_apply_def copy_to_mps_def marker_example
      sparse_example_def dense_example_def meta_example_def to_dense_def store_def)

section \<open>Properties of the entry point\<close>

lemma cli_calls_append: "cli_calls (xs @ ys) = cli_calls xs @ cli_calls ys"
  by (induction xs rule: cli_calls.induct) simp_all

text \<open>
  \<^verbatim>\<open>list.remove\<close> takes out the first occurrence; where the flag is absent the first run
  does not call it, and \<^const>\<open>remove1\<close> changes nothing there either.
\<close>

lemma first_run_outcome:
  "outcome (first_run cli t0 t1 sys_argv) = cli 0 (remove1 ''--benchmark'' sys_argv)"
  by (cases "cli 0 (remove1 ''--benchmark'' sys_argv)")
     (auto simp add: first_run_def benchmark_transcription_def remove1_idem Let_def)

lemma first_run_argv:
  "final_argv (first_run cli t0 t1 sys_argv) = remove1 ''--benchmark'' sys_argv"
  by (cases "cli 0 (remove1 ''--benchmark'' sys_argv)")
     (auto simp add: first_run_def benchmark_transcription_def remove1_idem Let_def)

lemma first_run_calls:
  "cli_calls (trace (first_run cli t0 t1 sys_argv)) = [remove1 ''--benchmark'' sys_argv]"
  by (cases "cli 0 (remove1 ''--benchmark'' sys_argv)")
     (auto simp add: first_run_def benchmark_transcription_def remove1_idem Let_def)

lemma main_no_retry:
  assumes "cli 0 (remove1 ''--benchmark'' sys_argv) = Raised f" "\<not> has_sparse_marker (str f)"
  shows "outcome (main cli t0 t1 sys_argv) = Raised f"
    and "cli_calls (trace (main cli t0 t1 sys_argv)) = [remove1 ''--benchmark'' sys_argv]"
    and "final_argv (main cli t0 t1 sys_argv) = remove1 ''--benchmark'' sys_argv"
  using assms
  by (cases f; simp add: main_def Let_def first_run_outcome first_run_argv first_run_calls
        cli_calls_append)+

lemma main_retry:
  assumes "remove1 ''--benchmark'' sys_argv = program # args"
    "cli 0 (program # args) = Raised (NotImplementedError msg)" "has_sparse_marker msg"
  shows "outcome (main cli t0 t1 sys_argv) = cli 1 (program # rewrite_args args)"
    and "cli_calls (trace (main cli t0 t1 sys_argv)) = [program # args, program # rewrite_args args]"
    and "final_argv (main cli t0 t1 sys_argv) = program # rewrite_args args"
  using assms
  by (simp_all add: main_def Let_def first_run_outcome first_run_argv first_run_calls
        cli_calls_append)

lemma main_calls:
  "cli_calls (trace (main cli t0 t1 sys_argv)) =
     (case (cli 0 (remove1 ''--benchmark'' sys_argv), remove1 ''--benchmark'' sys_argv) of
        (Raised (NotImplementedError msg), program # args) \<Rightarrow>
          if has_sparse_marker msg
          then [program # args, program # rewrite_args args]
          else [program # args]
      | (first, delegated) \<Rightarrow> [delegated])"
  by (simp add: main_def Let_def first_run_outcome first_run_argv first_run_calls cli_calls_append
      split: outcome.splits failure.splits list.splits)

lemma script_calls:
  "cli_calls (snd (script cli t0 t1 sys_argv)) = cli_calls (trace (main cli t0 t1 sys_argv))"
  by (simp add: script_def Let_def cli_calls_append split: outcome.splits)

lemma script_status:
  "fst (script cli t0 t1 sys_argv) =
     (case outcome (main cli t0 t1 sys_argv) of
        Returned v \<Rightarrow> exit_status v | Raised e \<Rightarrow> 1 | Exited v \<Rightarrow> exit_status v)"
  by (simp add: script_def Let_def split: outcome.splits)

text \<open>
  Claim C8. The wrapped command line is called at most twice. When the first run raises the
  sparse failure and the retried run raises any failure \<open>e\<close> (the sparse failure again
  included), \<open>e\<close> leaves \<^verbatim>\<open>main\<close> as it is, the command line has been called exactly
  twice (no second rewrite, no further fallback), the top level logs \<open>e\<close> as fatal and the
  exit status is 1.
\<close>

theorem single_retry:
  "length (cli_calls (snd (script cli t0 t1 sys_argv))) \<le> 2
   \<and> (remove1 ''--benchmark'' sys_argv = program # args
        \<and> cli 0 (program # args) = Raised (NotImplementedError msg) \<and> has_sparse_marker msg
        \<and> cli 1 (program # rewrite_args args) = Raised e
      \<longrightarrow> outcome (main cli t0 t1 sys_argv) = Raised e
          \<and> cli_calls (snd (script cli t0 t1 sys_argv)) = [program # args, program # rewrite_args args]
          \<and> fst (script cli t0 t1 sys_argv) = 1
          \<and> last (snd (script cli t0 t1 sys_argv))
              = Log ERROR (Text (''Fatal error: '' @ type_name e @ '': '' @ str e)))"
proof (intro conjI impI)
  show "length (cli_calls (snd (script cli t0 t1 sys_argv))) \<le> 2"
    by (simp add: script_calls main_calls split: outcome.splits failure.splits list.splits)
next
  assume a: "remove1 ''--benchmark'' sys_argv = program # args
        \<and> cli 0 (program # args) = Raised (NotImplementedError msg) \<and> has_sparse_marker msg
        \<and> cli 1 (program # rewrite_args args) = Raised e"
  then have o: "outcome (main cli t0 t1 sys_argv) = Raised e"
    using main_retry(1) [of sys_argv program args cli msg t0 t1] by simp
  show "outcome (main cli t0 t1 sys_argv) = Raised e" by (rule o)
  show "cli_calls (snd (script cli t0 t1 sys_argv)) = [program # args, program # rewrite_args args]"
    using a main_retry(2) [of sys_argv program args cli msg t0 t1] by (simp add: script_calls)
  show "fst (script cli t0 t1 sys_argv) = 1"
    using o by (simp add: script_status)
  show "last (snd (script cli t0 t1 sys_argv))
              = Log ERROR (Text (''Fatal error: '' @ type_name e @ '': '' @ str e))"
    using o by (simp add: script_def Let_def)
qed

theorem single_retry_witness:
  "remove1 ''--benchmark'' [''whisper_mps.py'', ''--benchmark'', ''--device'', ''mps'', ''audio.wav'']
     = ''whisper_mps.py'' # [''--device'', ''mps'', ''audio.wav'']
   \<and> has_sparse_marker ''Could not run aten::_sparse_coo_tensor_with_dims_and_tensors''
   \<and> cli_calls (snd (script sparse_failing_cli 0 1
         [''whisper_mps.py'', ''--benchmark'', ''--device'', ''mps'', ''audio.wav'']))
       = [[''whisper_mps.py'', ''--device'', ''mps'', ''audio.wav''],
          [''whisper_mps.py'', ''--device'', ''cpu'', ''audio.wav'']]
   \<and> fst (script sparse_failing_cli 0 1
         [''whisper_mps.py'', ''--benchmark'', ''--device'', ''mps'', ''audio.wav'']) = 1"
proof -
  have r: "remove1 ''--benchmark'' [''whisper_mps.py'', ''--benchmark'', ''--device'', ''mps'', ''audio.wav'']
     = ''whisper_mps.py'' # [''--device'', ''mps'', ''audio.wav'']"
    by simp
  have w: "rewrite_args [''--device'', ''mps'', ''audio.wav''] = [''--device'', ''cpu'', ''audio.wav'']"
    by (simp add: rewrite_args_def)
  have c: "sparse_failing_cli n a
       = Raised (NotImplementedError ''Could not run aten::_sparse_coo_tensor_with_dims_and_tensors'')"
    for n a
    by (simp add: sparse_failing_cli_def)
  from single_retry [where cli = sparse_failing_cli and program = "''whisper_mps.py''"
        and args = "[''--device'', ''mps'', ''audio.wav'']"
        and sys_argv = "[''whisper_mps.py'', ''--benchmark'', ''--device'', ''mps'', ''audio.wav'']"
        and msg = "''Could not run aten::_sparse_coo_tensor_with_dims_and_tensors''"
        and e = "NotImplementedError ''Could not run aten::_sparse_coo_tensor_with_dims_and_tensors''"
        and ?t0.0 = 0 and ?t1.0 = 1]
    r c marker_example
  show ?thesis
    unfolding w by simp
qed

text \<open>
  The benchmark flag. Where the flag occurs once, no call of the wrapped command line
  receives it, on the first run and on the retry; and when the timed run returns, the
  logged duration is the second reading of the clock minus the first.
\<close>

lemma emitted_tokens:
  "x \<in> set (emitted (r, arg)) \<Longrightarrow> x = arg \<or> x \<in> set replacement_tokens"
  by (cases r) (auto simp add: replacement_tokens_def)

lemma set_rewrite_loop:
  assumes "x \<in> set (rewrite_loop [] skip_next args)"
  shows "x \<in> set args \<or> x \<in> set replacement_tokens"
proof -
  from assms obtain r arg where
    z: "(r, arg) \<in> set (zip (roles skip_next args) args)" and e: "x \<in> set (emitted (r, arg))"
    by (auto simp: rewrite_loop_roles)
  from z have "arg \<in> set args"
    by (rule set_zip_rightD)
  with emitted_tokens [OF e] show ?thesis
    by blast
qed

lemma remove1_single: "count_list xs x \<le> 1 \<Longrightarrow> x \<notin> set (remove1 x xs)"
  by (induction xs) (auto simp: count_list_0_iff)

lemma single_benchmark_flag_stripped:
  assumes "count_list sys_argv ''--benchmark'' \<le> 1"
    and "delegated \<in> set (cli_calls (trace (main cli t0 t1 sys_argv)))"
  shows "''--benchmark'' \<notin> set delegated"
proof -
  have clean: "''--benchmark'' \<notin> set (remove1 ''--benchmark'' sys_argv)"
    using assms(1) by (rule remove1_single)
  have "''--benchmark'' \<notin> set (program # rewrite_args args)"
    if "remove1 ''--benchmark'' sys_argv = program # args" for program args
  proof
    assume "''--benchmark'' \<in> set (program # rewrite_args args)"
    with clean that have "''--benchmark'' \<in> set (rewrite_loop [] False args)"
      and "''--benchmark'' \<notin> set args"
      by (auto simp: rewrite_args_def)
    with set_rewrite_loop [of "''--benchmark''" False args] show False
      by (simp add: replacement_tokens_def)
  qed
  with clean assms(2) show ?thesis
    by (auto simp: main_calls split: outcome.splits failure.splits list.splits if_splits)
qed

lemma benchmark_duration_logged:
  assumes "''--benchmark'' \<in> set sys_argv"
    and "cli 0 (remove1 ''--benchmark'' sys_argv) = Returned result"
  shows "Log INFO (WithSeconds ''Transcription completed in'' (t1 - t0))
           \<in> set (trace (main cli t0 t1 sys_argv))"
  using assms
  by (simp add: main_def Let_def first_run_def benchmark_transcription_def)

text \<open>
  Claim C9. The claim asks that the wrapped command line never receives the benchmark flag.
  With the flag given twice, \<^verbatim>\<open>sys.argv.remove\<close> takes out the first occurrence only, and
  the wrapped command line is called with the second one still among its arguments.
\<close>

theorem duplicate_benchmark_flag_delegated:
  "script quiet_cli 10 12 [''whisper_mps.py'', ''--benchmark'', ''--benchmark'', ''audio.wav'']
     = (0, [Log INFO (WithArgv ''Starting whisper_mps with args:''
                        [''whisper_mps.py'', ''--benchmark'', ''--benchmark'', ''audio.wav'']),
            Log INFO (Text ''Running with CPU''),
            Log INFO (Text ''Running in benchmark mode''),
            CliCall [''whisper_mps.py'', ''--benchmark'', ''audio.wav''],
            Log INFO (WithSeconds ''Transcription completed in'' 2)])"
  by (simp add: script_def main_def Let_def first_run_def quiet_cli_def benchmark_transcription_def)

text \<open>
  Claim C10, as stated, fails: when the wrapped command line leaves through
  \<^verbatim>\<open>sys.exit(2)\<close>, as its argument parser does on a usage error, no handler applies and
  the exit status is 2, neither 0 nor 1.
\<close>

theorem usage_error_exit_status:
  "fst (script usage_error_cli 0 0 [''whisper_mps.py'']) = 2
   \<and> outcome (main usage_error_cli 0 0 [''whisper_mps.py'']) = Exited (PyInt 2)"
  by (simp add: script_def main_def Let_def first_run_def usage_error_cli_def)

lemma exit_status_range: "0 \<le> exit_status v \<and> exit_status v < 256"
  by (cases v) simp_all

text \<open>
  Claim C10, amended. The exit status is 0 when the wrapped run returns \<^verbatim>\<open>None\<close>. It is 1
  when a failure reaches the top level, after the retry if there was one. When the wrapped
  command line returns a value or leaves through \<^verbatim>\<open>sys.exit\<close>, the exit status is the
  status of that value: 0 for \<^verbatim>\<open>None\<close>, the integer modulo 256 (255 where the integer
  does not fit 64 bits), 1 for any other object. So the exit status lies between 0 and 255,
  and it is 1 exactly when a failure reached the top level or that value has status 1.
\<close>

theorem exit_status_of_script:
  "(cli 0 (remove1 ''--benchmark'' sys_argv) = Returned PyNone \<longrightarrow> fst (script cli t0 t1 sys_argv) = 0)
   \<and> (outcome (main cli t0 t1 sys_argv) = Raised e \<longrightarrow> fst (script cli t0 t1 sys_argv) = 1)
   \<and> (outcome (main cli t0 t1 sys_argv) = Returned v \<or> outcome (main cli t0 t1 sys_argv) = Exited v
        \<longrightarrow> fst (script cli t0 t1 sys_argv) = exit_status v)
   \<and> ((fst (script cli t0 t1 sys_argv) = 1) =
        ((\<exists>e. outcome (main cli t0 t1 sys_argv) = Raised e) \<or>
         (\<exists>v. (outcome (main cli t0 t1 sys_argv) = Returned v
                \<or> outcome (main cli t0 t1 sys_argv) = Exited v) \<and> exit_status v = 1)))
   \<and> 0 \<le> fst (script cli t0 t1 sys_argv) \<and> fst (script cli t0 t1 sys_argv) < 256
   \<and> exit_status PyNone = 0
   \<and> (- (2 ^ 63) \<le> n \<and> n < 2 ^ 63 \<longrightarrow> exit_status (PyInt n) = n mod 256)
   \<and> (n < - (2 ^ 63) \<or> 2 ^ 63 \<le> n \<longrightarrow> exit_status (PyInt n) = 255)
   \<and> exit_status (PyObject printed) = 1"
proof -
  have a: "cli 0 (remove1 ''--benchmark'' sys_argv) = Returned PyNone \<longrightarrow> fst (script cli t0 t1 sys_argv) = 0"
    by (simp add: script_def Let_def main_def first_run_outcome)
  have b: "0 \<le> fst (script cli t0 t1 sys_argv) \<and> fst (script cli t0 t1 sys_argv) < 256"
    using exit_status_range
    by (cases "outcome (main cli t0 t1 sys_argv)") (simp_all add: script_status)
  have c: "(fst (script cli t0 t1 sys_argv) = 1) =
        ((\<exists>e. outcome (main cli t0 t1 sys_argv) = Raised e) \<or>
         (\<exists>v. (outcome (main cli t0 t1 sys_argv) = Returned v
                \<or> outcome (main cli t0 t1 sys_argv) = Exited v) \<and> exit_status v = 1))"
    by (cases "outcome (main cli t0 t1 sys_argv)") (simp_all add: script_status)
  have d: "(outcome (main cli t0 t1 sys_argv) = Raised e \<longrightarrow> fst (script cli t0 t1 sys_argv) = 1)
     \<and> (outcome (main cli t0 t1 sys_argv) = Returned v \<or> outcome (main cli t0 t1 sys_argv) = Exited v
        \<longrightarrow> fst (script cli t0 t1 sys_argv) = exit_status v)"
    by (cases "outcome (main cli t0 t1 sys_argv)") (simp_all add: script_status)
  have e: "(- (2 ^ 63) \<le> n \<and> n < 2 ^ 63 \<longrightarrow> exit_status (PyInt n) = n mod 256)
     \<and> (n < - (2 ^ 63) \<or> 2 ^ 63 \<le> n \<longrightarrow> exit_status (PyInt n) = 255)"
    by auto
  from a b c d e show ?thesis
    by simp
qed

theorem exit_status_of_script_witness:
  "quiet_cli 0 (remove1 ''--benchmark'' [''whisper_mps.py'', ''audio.wav'']) = Returned PyNone
   \<and> fst (script quiet_cli 0 1 [''whisper_mps.py'', ''audio.wav'']) = 0
   \<and> outcome (main broken_cli 0 1 [''whisper_mps.py'', ''audio.wav''])
       = Raised (OtherException ''FileNotFoundError'' ''audio.wav'')
   \<and> fst (script broken_cli 0 1 [''whisper_mps.py'', ''audio.wav'']) = 1
   \<and> outcome (main usage_error_cli 0 1 [''whisper_mps.py'']) = Exited (PyInt 2)
   \<and> fst (script usage_error_cli 0 1 [''whisper_mps.py'']) = 2
   \<and> outcome (main wrapping_cli 0 1 [''whisper_mps.py'']) = Returned (PyInt 257)
   \<and> fst (script wrapping_cli 0 1 [''whisper_mps.py'']) = 1
   \<and> exit_status (PyInt 256) = 0
   \<and> exit_status (PyInt (- 1)) = 255
   \<and> exit_status (PyInt (2 ^ 64 + 3)) = 255"
proof -
  have q: "quiet_cli 0 (remove1 ''--benchmark'' [''whisper_mps.py'', ''audio.wav'']) = Returned PyNone"
    by (simp add: quiet_cli_def)
  have b: "outcome (main broken_cli 0 1 [''whisper_mps.py'', ''audio.wav''])
       = Raised (OtherException ''FileNotFoundError'' ''audio.wav'')"
    by (simp add: main_def Let_def first_run_def broken_cli_def)
  have u: "outcome (main usage_error_cli 0 1 [''whisper_mps.py'']) = Exited (PyInt 2)"
    by (simp add: main_def Let_def first_run_def usage_error_cli_def)
  have w: "outcome (main wrapping_cli 0 1 [''whisper_mps.py'']) = Returned (PyInt 257)"
    by (simp add: main_def Let_def first_run_def wrapping_cli_def)
  from exit_status_of_script [where cli = quiet_cli and sys_argv = "[''whisper_mps.py'', ''audio.wav'']"
        and ?t0.0 = 0 and ?t1.0 = 1 and n = 0] q
  have c1: "fst (script quiet_cli 0 1 [''whisper_mps.py'', ''audio.wav'']) = 0"
    by blast
  from exit_status_of_script [where cli = broken_cli and sys_argv = "[''whisper_mps.py'', ''audio.wav'']"
        and ?t0.0 = 0 and ?t1.0 = 1 and e = "OtherException ''FileNotFoundError'' ''audio.wav''"
        and n = 0] b
  have c2: "fst (script broken_cli 0 1 [''whisper_mps.py'', ''audio.wav'']) = 1"
    by blast
  have r2: "- (2 ^ 63) \<le> (2::int) \<and> (2::int) < 2 ^ 63"
    and r257: "- (2 ^ 63) \<le> (257::int) \<and> (257::int) < 2 ^ 63"
    and r256: "- (2 ^ 63) \<le> (256::int) \<and> (256::int) < 2 ^ 63"
    and rm1: "- (2 ^ 63) \<le> (- 1::int) \<and> (- 1::int) < 2 ^ 63"
    and big: "(2::int) ^ 63 \<le> 2 ^ 64 + 3"
    by simp_all
  from exit_status_of_script [where cli = usage_error_cli and sys_argv = "[''whisper_mps.py'']"
        and ?t0.0 = 0 and ?t1.0 = 1 and v = "PyInt 2" and n = 2] u r2
  have c3: "fst (script usage_error_cli 0 1 [''whisper_mps.py'']) = 2"
    by simp
  from exit_status_of_script [where cli = wrapping_cli and sys_argv = "[''whisper_mps.py'']"
        and ?t0.0 = 0 and ?t1.0 = 1 and v = "PyInt 257" and n = 257] w r257
  have c4: "fst (script wrapping_cli 0 1 [''whisper_mps.py'']) = 1"
    by simp
  from exit_status_of_script [where n = 256] r256
  have c5: "exit_status (PyInt 256) = 0"
    by simp
  from exit_status_of_script [where n = "- 1"] rm1
  have c6: "exit_status (PyInt (- 1)) = 255"
    by simp
  from exit_status_of_script [where n = "2 ^ 64 + 3"] big
  have c7: "exit_status (PyInt (2 ^ 64 + 3)) = 255"
    by simp
  from q b u w c1 c2 c3 c4 c5 c6 c7 show ?thesis by simp
qed

section \<open>Failures that do not name the sparse operation\<close>

text \<open>
  Claim C2, as stated, fails for the transfer guard, which never reads the message: on a
  sparse tensor it answers every unsupported-operation failure by densifying and retrying.
  Here the failure does not name the sparse operation, and the guard returns the dense
  tensor on the accelerator instead of raising.
\<close>

theorem transfer_guard_ignores_marker:
  "\<not> has_sparse_marker ''Sparse layout is not supported on this device''
   \<and> layout_to sparse_example ''mps''
        = Inl (NotImplementedError ''Sparse layout is not supported on this device'')
   \<and> patched_to layout_to sparse_example ''mps''
        = (Inr \<lparr>is_sparse = False, placed_on = ''mps'', entries = [0, 3, 0]\<rparr>,
           [Log WARNING (Text ''Converting sparse tensor to dense for MPS compatibility: Sparse layout is not supported on this device'')])"
  by (simp add: has_sparse_marker_def sparse_marker_def sublist_Cons_right
      layout_to_def sparse_example_def patched_to_def to_dense_def)

text \<open>
  Claim C2, amended. A failure \<open>f\<close> whose message does not hold the marker leaves unchanged:
  the transfer guard, when the tensor is not sparse or \<open>f\<close> is not an unsupported-operation
  failure; the module apply guard, when the bulk application raises it (nothing is logged
  and no entry is visited); the model load guard; and the entry point, when the first run
  raises it (the command line is called once, and the exit status is 1). For a sparse
  tensor the transfer guard densifies and retries on every unsupported-operation failure,
  with or without the marker.
\<close>

theorem unmarked_failure_propagates:
  "(\<not> has_sparse_marker (str f) \<longrightarrow>
      (original_to T P = Inl f \<and> (\<not> is_sparse T \<or> (\<forall>e. f \<noteq> NotImplementedError e))
         \<longrightarrow> fst (patched_to original_to T P) = Inl f)
    \<and> (original_apply m = Inl f \<longrightarrow> patched_apply original_apply fn m = (Inl f, []))
    \<and> (original_load_model name device download_root in_memory = Inl f
         \<longrightarrow> fst (optimized_load_model original_load_model t0 t1 name device download_root in_memory) = Inl f)
    \<and> (cli 0 (remove1 ''--benchmark'' sys_argv) = Raised f
         \<longrightarrow> outcome (main cli t0 t1 sys_argv) = Raised f
             \<and> cli_calls (trace (main cli t0 t1 sys_argv)) = [remove1 ''--benchmark'' sys_argv]
             \<and> fst (script cli t0 t1 sys_argv) = 1))
   \<and> (is_sparse T \<and> original_to T P = Inl (NotImplementedError e)
         \<longrightarrow> fst (patched_to original_to T P) = original_to (to_dense T) P)"
proof (intro conjI impI)
  assume "original_to T P = Inl f \<and> (\<not> is_sparse T \<or> (\<forall>e. f \<noteq> NotImplementedError e))"
  then show "fst (patched_to original_to T P) = Inl f"
    by (cases f) (auto simp: patched_to_def)
next
  assume "\<not> has_sparse_marker (str f)" "original_apply m = Inl f"
  then show "patched_apply original_apply fn m = (Inl f, [])"
    by (cases m; cases f) simp_all
next
  assume "original_load_model name device download_root in_memory = Inl f"
  then show "fst (optimized_load_model original_load_model t0 t1 name device download_root in_memory) = Inl f"
    by (simp add: optimized_load_model_def)
next
  assume a: "\<not> has_sparse_marker (str f)" "cli 0 (remove1 ''--benchmark'' sys_argv) = Raised f"
  show "outcome (main cli t0 t1 sys_argv) = Raised f"
    using a by (simp add: main_no_retry(1))
  then show "fst (script cli t0 t1 sys_argv) = 1"
    by (simp add: script_status)
  show "cli_calls (trace (main cli t0 t1 sys_argv)) = [remove1 ''--benchmark'' sys_argv]"
    using a by (simp add: main_no_retry(2))
next
  assume "is_sparse T \<and> original_to T P = Inl (NotImplementedError e)"
  then show "fst (patched_to original_to T P) = original_to (to_dense T) P"
    by (simp add: patched_to_def)
qed

theorem unmarked_failure_propagates_witness:
  "\<not> has_sparse_marker (str (OtherException ''RuntimeError'' ''unknown device''))
   \<and> example_to sparse_example ''tpu'' = Inl (OtherException ''RuntimeError'' ''unknown device'')
   \<and> fst (patched_to example_to sparse_example ''tpu'')
       = Inl (OtherException ''RuntimeError'' ''unknown device'')
   \<and> \<not> has_sparse_marker (str (NotImplementedError ''aten::linalg_qr is not implemented for MPS''))
   \<and> patched_apply unsupported_apply move_to_mps example_module
       = (Inl (NotImplementedError ''aten::linalg_qr is not implemented for MPS''), [])
   \<and> \<not> has_sparse_marker (str (OtherException ''RuntimeError'' ''Model not found''))
   \<and> fst (optimized_load_model missing_loader 0 1 ''base'' (Some ''mps'') None False)
       = Inl (OtherException ''RuntimeError'' ''Model not found'')
   \<and> \<not> has_sparse_marker (str (OtherException ''FileNotFoundError'' ''audio.wav''))
   \<and> outcome (main broken_cli 0 1 [''whisper_mps.py'', ''--device'', ''mps'', ''audio.wav''])
       = Raised (OtherException ''FileNotFoundError'' ''audio.wav'')
   \<and> cli_calls (trace (main broken_cli 0 1 [''whisper_mps.py'', ''--device'', ''mps'', ''audio.wav'']))
       = [[''whisper_mps.py'', ''--device'', ''mps'', ''audio.wav'']]
   \<and> fst (script broken_cli 0 1 [''whisper_mps.py'', ''--device'', ''mps'', ''audio.wav'']) = 1
   \<and> is_sparse sparse_example
   \<and> fst (patched_to layout_to sparse_example ''mps'') = layout_to (to_dense sparse_example) ''mps''"
proof -
  have n1: "\<not> has_sparse_marker (str (OtherException ''RuntimeError'' ''unknown device''))"
    and n2: "\<not> has_sparse_marker (str (NotImplementedError ''aten::linalg_qr is not implemented for MPS''))"
    and n3: "\<not> has_sparse_marker (str (OtherException ''RuntimeError'' ''Model not found''))"
    and n4: "\<not> has_sparse_marker (str (OtherException ''FileNotFoundError'' ''audio.wav''))"
    by (simp_all add: has_sparse_marker_def sparse_marker_def sublist_Cons_right)
  have s: "is_sparse sparse_example"
    by (simp add: sparse_example_def)
  have h1: "example_to sparse_example ''tpu'' = Inl (OtherException ''RuntimeError'' ''unknown device'')"
    by (simp add: example_to_def)
  have h2: "unsupported_apply example_module
      = Inl (NotImplementedError ''aten::linalg_qr is not implemented for MPS'')"
    by (simp add: unsupported_apply_def)
  have h3: "missing_loader ''base'' (Some ''mps'') None False
      = Inl (OtherException ''RuntimeError'' ''Model not found'')"
    by (simp add: missing_loader_def)
  have h4: "broken_cli 0 (remove1 ''--benchmark'' [''whisper_mps.py'', ''--device'', ''mps'', ''audio.wav''])
      = Raised (OtherException ''FileNotFoundError'' ''audio.wav'')"
    by (simp add: broken_cli_def)
  have h5: "layout_to sparse_example ''mps''
      = Inl (NotImplementedError ''Sparse layout is not supported on this device'')"
    by (simp add: layout_to_def s)
  note at_inputs = unmarked_failure_propagates [where original_to = example_to and T = sparse_example and P = "''tpu''"
        and original_apply = unsupported_apply and m = example_module and fn = move_to_mps
        and original_load_model = missing_loader and name = "''base''" and device = "Some ''mps''"
        and download_root = None and in_memory = False and ?t0.0 = 0 and ?t1.0 = 1
        and cli = broken_cli and sys_argv = "[''whisper_mps.py'', ''--device'', ''mps'', ''audio.wav'']"
        and e = "''unknown device''"]
  from at_inputs [where f = "OtherException ''RuntimeError'' ''unknown device''"] n1 h1
  have c1: "fst (patched_to example_to sparse_example ''tpu'')
       = Inl (OtherException ''RuntimeError'' ''unknown device'')"
    by blast
  from at_inputs [where f = "NotImplementedError ''aten::linalg_qr is not implemented for MPS''"] n2 h2
  have c2': "patched_apply unsupported_apply move_to_mps example_module
       = (Inl (NotImplementedError ''aten::linalg_qr is not implemented for MPS''), [])"
    by blast
  from at_inputs [where f = "OtherException ''RuntimeError'' ''Model not found''"] n3 h3
  have c3: "fst (optimized_load_model missing_loader 0 1 ''base'' (Some ''mps'') None False)
       = Inl (OtherException ''RuntimeError'' ''Model not found'')"
    by blast
  from at_inputs [where f = "OtherException ''FileNotFoundError'' ''audio.wav''"] n4 h4
  have c4: "outcome (main broken_cli 0 1 [''whisper_mps.py'', ''--device'', ''mps'', ''audio.wav''])
       = Raised (OtherException ''FileNotFoundError'' ''audio.wav'')
     \<and> cli_calls (trace (main broken_cli 0 1 [''whisper_mps.py'', ''--device'', ''mps'', ''audio.wav'']))
       = [remove1 ''--benchmark'' [''whisper_mps.py'', ''--device'', ''mps'', ''audio.wav'']]
     \<and> fst (script broken_cli 0 1 [''whisper_mps.py'', ''--device'', ''mps'', ''audio.wav'']) = 1"
    by blast
  from unmarked_failure_propagates [where original_to = layout_to and T = sparse_example and P = "''mps''"
        and e = "''Sparse layout is not supported on this device''"
        and f = "OtherException ''RuntimeError'' ''unknown device''"
        and original_apply = unsupported_apply and m = example_module and fn = move_to_mps
        and original_load_model = missing_loader and name = "''base''" and device = "Some ''mps''"
        and download_root = None and in_memory = False and ?t0.0 = 0 and ?t1.0 = 1
        and cli = broken_cli and sys_argv = "[''whisper_mps.py'', ''--device'', ''mps'', ''audio.wav'']"]
    s h5
  have c5: "fst (patched_to layout_to sparse_example ''mps'') = layout_to (to_dense sparse_example) ''mps''"
    by blast
  from n1 n2 n3 n4 s h1 c1 c2' c3 c4 c5 show ?thesis by simp
qed

end
